theory Spec2Isabelle
  imports Complex_Main "HOL-Library.Multiset"
begin

section \<open>JavaScript values used by both components\<close>

text \<open>
  Array indices, counters and frame numbers are JavaScript numbers holding integers; they
  are modelled by \<open>nat\<close> and \<open>int\<close>. Coordinates, heights, phases and
  intensities are JavaScript numbers in general; they are modelled by \<open>real\<close>,
  that is, the arithmetic of the source is read as exact arithmetic and the rounding of
  IEEE doubles is not part of the model. Strings are \<open>string\<close>.
\<close>

text \<open>\<open>Number.prototype.toString\<close> on a non-negative integer: its decimal digits.\<close>

definition digitChar :: "nat \<Rightarrow> char" where
  "digitChar d = ''0123456789'' ! d"

fun toString :: "nat \<Rightarrow> string" where
  "toString n = (if n < 10 then [digitChar n] else toString (n div 10) @ [digitChar (n mod 10)])"

declare toString.simps [simp del]

text \<open>\<open>String.prototype.padStart(n, c)\<close> with a one-character filler.\<close>

definition padStart :: "nat \<Rightarrow> char \<Rightarrow> string \<Rightarrow> string" where
  "padStart n c s = replicate (n - length s) c @ s"

text \<open>
  The remainder operator \<open>%\<close> on integers: the result has the sign of the
  dividend. A zero divisor gives NaN in the source; no divisor of the program is zero
  (see \<open>timesteps_nonempty\<close> below).
\<close>

definition jsRemInt :: "int \<Rightarrow> int \<Rightarrow> int" where
  "jsRemInt a b = (if a < 0 then - ((- a) mod \<bar>b\<bar>) else a mod \<bar>b\<bar>)"

text \<open>Reading \<open>xs[i]\<close>: \<open>undefined\<close> (here \<open>None\<close>) outside the array.\<close>

definition arrayGet :: "'a list \<Rightarrow> int \<Rightarrow> 'a option" where
  "arrayGet xs i = (if 0 \<le> i \<and> i < int (length xs) then Some (xs ! nat i) else None)"


section \<open>The timestep playback controller (FloodTimelineControl)\<close>

record timestep =
  time :: string
  display :: string

text \<open>
  \<open>generateDefaultTimesteps\<close>: one entry every 30 minutes of the day 2022-10-08. The inner
  loop \<open>for (minute = 0; minute < 60; minute += 30)\<close> visits 0 and 30.
\<close>

definition generateDefaultTimesteps :: "timestep list" where
  "generateDefaultTimesteps =
     (let baseDate = ''20221008'' in
      concat (map (\<lambda>hour. map (\<lambda>minute.
        \<lparr> time = baseDate @ ''_'' @ padStart 2 CHR ''0'' (toString hour)
                   @ padStart 2 CHR ''0'' (toString minute) @ ''00'',
          display = padStart 2 CHR ''0'' (toString hour) @ '':''
                   @ padStart 2 CHR ''0'' (toString minute) \<rparr>) [0, 30]) [0..<24]))"

text \<open>
  \<open>const timesteps = availableTimesteps.length > 0 ? availableTimesteps : generateDefaultTimesteps()\<close>
\<close>

definition timesteps :: "timestep list \<Rightarrow> timestep list" where
  "timesteps availableTimesteps =
     (if length availableTimesteps > 0 then availableTimesteps else generateDefaultTimesteps)"

text \<open>
  The three state cells of the component. A timer handle is modelled by what its callback
  closes over: the value of \<open>timesteps.length\<close> when \<open>setInterval\<close> was called.
  The handle stored in \<open>playInterval\<close> is the only live timer: every path that drops
  the handle calls \<open>clearInterval\<close> on it first.
\<close>

datatype interval = Interval nat

record controller =
  isPlaying :: bool
  currentTimestep :: int
  playInterval :: "interval option"

definition initialController :: controller where
  "initialController = \<lparr> isPlaying = False, currentTimestep = 0, playInterval = None \<rparr>"

text \<open>\<open>handlePlay\<close>: the single play/pause toggle.\<close>

definition handlePlay :: "timestep list \<Rightarrow> controller \<Rightarrow> controller" where
  "handlePlay availableTimesteps s =
     (if isPlaying s then
        (let s1 = s\<lparr> isPlaying := False \<rparr>
         in if playInterval s \<noteq> None then s1\<lparr> playInterval := None \<rparr> else s1)
      else
        s\<lparr> isPlaying := True,
           playInterval := Some (Interval (length (timesteps availableTimesteps))) \<rparr>)"

text \<open>
  One firing of the timer callback
  \<open>setCurrentTimestep(prev => (prev + 1) % timesteps.length)\<close>.
  With no live timer nothing fires.
\<close>

definition tick :: "controller \<Rightarrow> controller" where
  "tick s =
     (case playInterval s of
        None \<Rightarrow> s
      | Some (Interval len) \<Rightarrow> s\<lparr> currentTimestep := jsRemInt (currentTimestep s + 1) (int len) \<rparr>)"

primrec ticks :: "nat \<Rightarrow> controller \<Rightarrow> controller" where
  "ticks 0 s = s"
| "ticks (Suc n) s = ticks n (tick s)"

text \<open>\<open>handleTimestepClick(index)\<close>: the index is stored as given; playback is paused.\<close>

definition handleTimestepClick :: "int \<Rightarrow> controller \<Rightarrow> controller" where
  "handleTimestepClick index s =
     (let s1 = s\<lparr> currentTimestep := index \<rparr>
      in if isPlaying s then
           (let s2 = s1\<lparr> isPlaying := False \<rparr>
            in if playInterval s \<noteq> None then s2\<lparr> playInterval := None \<rparr> else s2)
         else s1)"

text \<open>
  \<open>timesteps[currentTimestep]\<close>, the entry the component displays and reports.
\<close>

definition currentEntry :: "timestep list \<Rightarrow> controller \<Rightarrow> timestep option" where
  "currentEntry availableTimesteps s = arrayGet (timesteps availableTimesteps) (currentTimestep s)"

text \<open>
  The body of the notification effect,
  \<open>if (onTimestepChange && timesteps[currentTimestep]) onTimestepChange(timesteps[currentTimestep])\<close>,
  as the list of values handed to the listener (a listener is registered, and every
  timestep object is truthy).
\<close>

definition notifyEffect :: "timestep list \<Rightarrow> controller \<Rightarrow> timestep list" where
  "notifyEffect availableTimesteps s =
     (case currentEntry availableTimesteps s of None \<Rightarrow> [] | Some t \<Rightarrow> [t])"

text \<open>
  What the listener receives when an event handler takes the state from \<open>s\<close> to
  \<open>s'\<close> under unchanged props. The effect is declared with the dependencies
  \<open>[currentTimestep, onTimestepChange, timesteps]\<close>. The component renders again only
  if a state cell received a different value; on that render the effect runs again only
  if a dependency differs from the previous render: \<open>currentTimestep\<close> by value,
  \<open>timesteps\<close> by identity. The parent's \<open>onTimestepChange\<close> is a
  \<open>useCallback\<close> with no dependencies and keeps its identity. \<open>timesteps\<close> is
  the prop array itself when that is non-empty, and a fresh array built by
  \<open>generateDefaultTimesteps()\<close> on every render otherwise.
\<close>

definition emitted :: "timestep list \<Rightarrow> controller \<Rightarrow> controller \<Rightarrow> timestep list" where
  "emitted availableTimesteps s s' =
     (if s' \<noteq> s \<and> (currentTimestep s' \<noteq> currentTimestep s \<or> length availableTimesteps = 0)
      then notifyEffect availableTimesteps s' else [])"


section \<open>The cable flow animation engine (Root)\<close>

subsection \<open>Data\<close>

text \<open>
  A GeoJSON position is modelled by the pair of its components 0 and 1, the only ones the
  code reads. A point built by the code is a JavaScript array of numbers. A cable is a
  GeoJSON feature, of which the code reads \<open>properties.status\<close> and
  \<open>geometry.coordinates\<close>. A property that may be missing is an \<open>option\<close>.
\<close>

type_synonym coord = "real \<times> real"
type_synonym point = "real list"

record feature =
  status :: string
  coordinates :: "coord list"

record featureCollection =
  features :: "feature list option"

record infrastructure_data =
  hierarchical_power_cables :: "featureCollection option"

subsection \<open>Status colours\<close>

definition getStatusColor :: "string \<Rightarrow> nat list" where
  "getStatusColor st =
     (if st = ''down'' then [255, 0, 0]
      else if st = ''warning'' \<or> st = ''high_load'' then [255, 255, 0]
      else if st = ''operational'' \<or> st = ''normal'' then [0, 255, 0]
      else [0, 255, 0])"

definition getStatusColorString :: "string \<Rightarrow> string" where
  "getStatusColorString st =
     (if st = ''down'' then ''rgb(255, 0, 0)''
      else if st = ''warning'' \<or> st = ''high_load'' then ''rgb(255, 255, 0)''
      else if st = ''operational'' \<or> st = ''normal'' then ''rgb(0, 255, 0)''
      else ''rgb(0, 255, 0)'')"

text \<open>
  The consumers of the string form parse it back with
  \<open>baseColor.match(/\d+/g)\<close> and \<open>matches.map(Number)\<close>: the maximal runs of
  decimal digits, from left to right (\<open>null\<close> when there is none), each read as a number.
\<close>

definition isDigit :: "char \<Rightarrow> bool" where
  "isDigit c = (c \<in> set ''0123456789'')"

function digitRuns :: "string \<Rightarrow> string list" where
  "digitRuns [] = []"
| "digitRuns (c # cs) =
     (if isDigit c then (c # takeWhile isDigit cs) # digitRuns (dropWhile isDigit cs)
      else digitRuns cs)"
  by pat_completeness auto
termination
  by (relation "measure length") (auto simp add: less_Suc_eq_le length_dropWhile_le)

definition matchDigits :: "string \<Rightarrow> string list option" where
  "matchDigits s = (case digitRuns s of [] \<Rightarrow> None | r # rs \<Rightarrow> Some (r # rs))"

definition digitValue :: "char \<Rightarrow> nat" where
  "digitValue c = of_char c - 48"

definition Number :: "string \<Rightarrow> nat" where
  "Number s = foldl (\<lambda>acc c. 10 * acc + digitValue c) 0 s"

definition startsWith :: "string \<Rightarrow> string \<Rightarrow> bool" where
  "startsWith prefix s = (take (length prefix) s = prefix)"

text \<open>
  The parsing step shared by the \<open>getColor\<close> callbacks of the cable layers:
  \<open>if (baseColor && baseColor.startsWith('rgb')) { matches = baseColor.match(/\d+/g);
  rgb = matches ? matches.map(Number) : fallback }\<close>, with \<open>rgb\<close> preset to the fallback.
  The glow layer's fallback is yellow, the flow layer's is \<open>getStatusColor(status)\<close>.
\<close>

definition parseColorString :: "string \<Rightarrow> nat list \<Rightarrow> nat list" where
  "parseColorString baseColor fallback =
     (if baseColor \<noteq> [] \<and> startsWith ''rgb'' baseColor then
        (case matchDigits baseColor of None \<Rightarrow> fallback | Some matches \<Rightarrow> map Number matches)
      else fallback)"

definition glowRgb :: "string \<Rightarrow> nat list" where
  "glowRgb st = parseColorString (getStatusColorString st) [255, 255, 0]"

definition flowRgb :: "string \<Rightarrow> nat list" where
  "flowRgb st = parseColorString (getStatusColorString st) (getStatusColor st)"

subsection \<open>Arc paths\<close>

text \<open>
  \<open>createArcPath\<close>. The planar distance of a segment and its sagged midpoint are the
  \<open>const\<close> bindings of the loop body. The loop pushes the start point and the midpoint
  of every consecutive pair; the last coordinate is pushed after the loop. With fewer than
  two coordinates the input array is returned as it is.
\<close>

definition distance :: "coord \<Rightarrow> coord \<Rightarrow> real" where
  "distance start end = sqrt ((fst end - fst start) ^ 2 + (snd end - snd start) ^ 2)"

definition sagFactor :: "coord \<Rightarrow> coord \<Rightarrow> real" where
  "sagFactor start end = min (distance start end * 0.05) 10"

definition midPoint :: "coord \<Rightarrow> coord \<Rightarrow> point" where
  "midPoint start end =
     (let midX = (fst start + fst end) / 2;
          midY = (snd start + snd end) / 2;
          midZ = 30 - sagFactor start end
      in [midX, midY, midZ])"

fun arcPoints :: "coord list \<Rightarrow> point list" where
  "arcPoints (start # end # rest) =
     [fst start, snd start, 30] # midPoint start end # arcPoints (end # rest)"
| "arcPoints [lastPoint] = [[fst lastPoint, snd lastPoint, 30]]"
| "arcPoints [] = []"

definition createArcPath :: "coord list \<Rightarrow> point list" where
  "createArcPath cs = (if length cs < 2 then map (\<lambda>c. [fst c, snd c]) cs else arcPoints cs)"

subsection \<open>Particles\<close>

text \<open>
  A particle object; \<open>particle_id\<close> is its field \<open>id\<close>.
\<close>

record particle =
  particle_id :: string
  startPoint :: point
  endPoint :: point
  lineIndex :: nat
  segmentIndex :: nat
  particleIndex :: nat
  phase :: real
  color :: "nat list"

definition particleCount :: nat where
  "particleCount = 3"

text \<open>The particles of segment \<open>i\<close> of line \<open>li\<close> (the loop over \<open>j\<close>).\<close>

definition segmentParticles :: "nat \<Rightarrow> nat list \<Rightarrow> nat \<Rightarrow> point \<Rightarrow> point \<Rightarrow> particle list" where
  "segmentParticles li statusColor i start end =
     map (\<lambda>j. \<lparr> particle_id = toString li @ ''-'' @ toString i @ ''-'' @ toString j,
                startPoint = start, endPoint = end,
                lineIndex = li, segmentIndex = i, particleIndex = j,
                phase = (real j / real particleCount) * 2 * pi,
                color = statusColor \<rparr>) [0..<particleCount]"

text \<open>The body of \<open>powerLines.features.forEach((line, lineIndex) => ...)\<close>.\<close>

definition lineParticles :: "nat \<Rightarrow> feature \<Rightarrow> particle list" where
  "lineParticles li line =
     (if status line = ''down'' then []
      else
        (let arcPath = createArcPath (coordinates line);
             statusColor = getStatusColor (status line)
         in concat (map (\<lambda>i. segmentParticles li statusColor i (arcPath ! i) (arcPath ! (i + 1)))
                      [0..<length arcPath - 1])))"

definition generateParticles :: "featureCollection option \<Rightarrow> particle list" where
  "generateParticles powerLines =
     (case powerLines of
        None \<Rightarrow> []
      | Some pl \<Rightarrow>
          (case features pl of
             None \<Rightarrow> []
           | Some fs \<Rightarrow> concat (map (\<lambda>(li, line). lineParticles li line) (enumerate 0 fs))))"

subsection \<open>Particle positions at a frame\<close>

text \<open>
  The remainder operator \<open>%\<close> on numbers: the dividend minus the divisor times the
  quotient truncated towards zero.
\<close>

definition jsRem :: "real \<Rightarrow> real \<Rightarrow> real" where
  "jsRem a b = a - b * of_int (if 0 \<le> a / b then \<lfloor>a / b\<rfloor> else \<lceil>a / b\<rceil>)"

definition interpolatePosition :: "point \<Rightarrow> point \<Rightarrow> real \<Rightarrow> point" where
  "interpolatePosition start end t =
     [start ! 0 + (end ! 0 - start ! 0) * t,
      start ! 1 + (end ! 1 - start ! 1) * t,
      start ! 2 + (end ! 2 - start ! 2) * t]"

record positionedParticle = particle +
  position :: point
  alpha :: real

text \<open>
  The \<open>const t\<close> of \<open>getCurrentParticlePositions\<close> and the object it builds for one
  particle. Every particle carries a colour array, which is truthy, so
  \<open>particle.color || [255, 255, 0]\<close> is the particle's colour.
\<close>

definition frameT :: "nat \<Rightarrow> particle \<Rightarrow> real" where
  "frameT frame p =
     (let timeScale = real frame * 0.02
      in jsRem (timeScale + phase p) (2 * pi) / (2 * pi))"

definition positionAtFrame :: "nat \<Rightarrow> particle \<Rightarrow> positionedParticle" where
  "positionAtFrame frame p =
     (let t = frameT frame p;
          pos = interpolatePosition (startPoint p) (endPoint p) t;
          rgb = color p
      in particle.extend (p\<lparr> color := rgb \<rparr>)
           (positionedParticle.fields pos (sin (t * pi) * 0.8 + 0.2)))"

definition getCurrentParticlePositions :: "particle list \<Rightarrow> nat \<Rightarrow> positionedParticle list" where
  "getCurrentParticlePositions particles frame = map (positionAtFrame frame) particles"

subsection \<open>Junction points and electrical arcs\<close>

text \<open>
  \<open>Number.prototype.toFixed(6)\<close>: the integer \<open>n\<close> nearest to
  \<open>|x| * 10^6\<close> (the larger one on a tie), printed with six digits after the point and
  a minus sign when \<open>x < 0\<close>. (Magnitudes from \<open>10^21\<close> on print in exponent form;
  coordinates are degrees.)
\<close>

definition toFixed6 :: "real \<Rightarrow> string" where
  "toFixed6 x =
     (let n = nat \<lfloor>\<bar>x\<bar> * 1000000 + 1 / 2\<rfloor>
      in (if x < 0 then ''-'' else []) @ toString (n div 1000000) @ ''.''
           @ padStart 6 CHR ''0'' (toString (n mod 1000000)))"

definition junctionKey :: "coord \<Rightarrow> string" where
  "junctionKey coord = toFixed6 (fst coord) @ '','' @ toFixed6 (snd coord)"

text \<open>
  The object stored per key, with the fields \<open>position\<close>, \<open>count\<close>,
  \<open>color\<close> and \<open>status\<close> of the source.
\<close>

record junctionPoint =
  jp_position :: point
  jp_count :: nat
  jp_color :: "nat list"
  jp_status :: string

text \<open>
  The \<open>Map\<close> from keys to junction objects is a list of entries in insertion order,
  with one entry per key. \<open>mutate\<close> is an assignment to fields of the object stored
  under a key.
\<close>

fun mutate :: "'k \<Rightarrow> ('v \<Rightarrow> 'v) \<Rightarrow> ('k \<times> 'v) list \<Rightarrow> ('k \<times> 'v) list" where
  "mutate k f [] = []"
| "mutate k f ((k', v) # kvs) = (if k' = k then (k', f v) # kvs else (k', v) # mutate k f kvs)"

text \<open>The body of \<open>coordinates.forEach((coord, coordIndex) => ...)\<close>.\<close>

definition visitCoord ::
  "string \<Rightarrow> coord \<Rightarrow> (string \<times> junctionPoint) list \<Rightarrow> (string \<times> junctionPoint) list" where
  "visitCoord st coord junctionPoints =
     (let statusColor = getStatusColor st;
          key = junctionKey coord;
          junctionPoints' =
            (case map_of junctionPoints key of
               None \<Rightarrow>
                 junctionPoints @
                   [(key, \<lparr> jp_position = [fst coord, snd coord, 500], jp_count = 0,
                            jp_color = statusColor, jp_status = st \<rparr>)]
             | Some existingPoint \<Rightarrow>
                 if st = ''down'' \<and> jp_status existingPoint \<noteq> ''down'' then
                   mutate key (\<lambda>p. p\<lparr> jp_status := ''down'', jp_color := statusColor \<rparr>) junctionPoints
                 else if st = ''warning'' \<and> jp_status existingPoint = ''operational'' then
                   mutate key (\<lambda>p. p\<lparr> jp_status := ''warning'', jp_color := statusColor \<rparr>) junctionPoints
                 else junctionPoints)
      in mutate key (\<lambda>p. p\<lparr> jp_count := jp_count p + 1 \<rparr>) junctionPoints')"

definition findJunctionPoints :: "feature list \<Rightarrow> (string \<times> junctionPoint) list" where
  "findJunctionPoints fs =
     fold (\<lambda>line. fold (visitCoord (status line)) (coordinates line)) fs []"

text \<open>
  An arc object, with the fields \<open>position\<close>, \<open>intensity\<close> and
  \<open>color\<close> of the source.
\<close>

record arc =
  arc_position :: point
  arc_intensity :: real
  arc_color :: "nat list"

definition createArcs :: "(string \<times> junctionPoint) list \<Rightarrow> arc list" where
  "createArcs junctionPoints =
     concat (map (\<lambda>(key, point).
       if jp_count point > 1 \<and> jp_status point \<noteq> ''down'' then
         (let arcIntensity = min (0.2 + real (jp_count point) * 0.1) 0.8
          in [\<lparr> arc_position = jp_position point, arc_intensity = arcIntensity,
                arc_color = jp_color point \<rparr>])
       else []) junctionPoints)"

definition getElectricalArcs :: "infrastructure_data option \<Rightarrow> arc list" where
  "getElectricalArcs data =
     (case data of
        None \<Rightarrow> []
      | Some d \<Rightarrow>
          (case hierarchical_power_cables d of
             None \<Rightarrow> []
           | Some cables \<Rightarrow>
               (case features cables of
                  None \<Rightarrow> []
                | Some fs \<Rightarrow> createArcs (findJunctionPoints fs))))"

subsection \<open>Notions used to state the junction properties\<close>

text \<open>
  The nested \<open>forEach\<close> loops of \<open>getElectricalArcs\<close> visit every coordinate of every
  cable, in order; \<open>visits\<close> lists the visits as pairs of the cable's status and the
  coordinate. The group of a key consists of the visits whose coordinate has that key;
  its connection count is their number and \<open>statusesAt\<close> lists their statuses.
\<close>

definition visits :: "feature list \<Rightarrow> (string \<times> coord) list" where
  "visits fs = concat (map (\<lambda>line. map (\<lambda>coord. (status line, coord)) (coordinates line)) fs)"

definition visitsAt :: "string \<Rightarrow> feature list \<Rightarrow> (string \<times> coord) list" where
  "visitsAt key fs = filter (\<lambda>(st, coord). junctionKey coord = key) (visits fs)"

definition statusesAt :: "string \<Rightarrow> feature list \<Rightarrow> string list" where
  "statusesAt key fs = map fst (visitsAt key fs)"

definition connectionCount :: "string \<Rightarrow> feature list \<Rightarrow> nat" where
  "connectionCount key fs = length (visitsAt key fs)"

text \<open>
  One step of the status update of \<open>getElectricalArcs\<close> (the \<open>if\<close>/\<open>else if\<close>
  on an existing junction point), as a function of the status held and the status folded
  in; and the status that results from folding a non-empty list of statuses in, the first
  one being the status the junction point is created with.
\<close>

definition foldStatus :: "string \<Rightarrow> string \<Rightarrow> string" where
  "foldStatus existing st =
     (if st = ''down'' \<and> existing \<noteq> ''down'' then ''down''
      else if st = ''warning'' \<and> existing = ''operational'' then ''warning''
      else existing)"

fun aggregateStatus :: "string list \<Rightarrow> string" where
  "aggregateStatus [] = []"
| "aggregateStatus (st # sts) = foldl foldStatus st sts"

text \<open>
  The worst status of a list of statuses in the spec's words: any down forces down;
  otherwise any warning forces warning; otherwise operational.
\<close>

definition worstStatus :: "string list \<Rightarrow> string" where
  "worstStatus sts =
     (if ''down'' \<in> set sts then ''down''
      else if ''warning'' \<in> set sts then ''warning''
      else ''operational'')"

text \<open>The key of the place an arc is drawn at.\<close>

definition arcKey :: "arc \<Rightarrow> string" where
  "arcKey a = junctionKey (arc_position a ! 0, arc_position a ! 1)"

text \<open>
  The junction point that the visits of one key add up to, the effect of one more visit on
  it, and the arcs \<open>createArcs\<close> makes of one junction point.
\<close>

fun entryOf :: "(string \<times> coord) list \<Rightarrow> junctionPoint option" where
  "entryOf [] = None"
| "entryOf ((st, coord) # rest) =
     Some \<lparr> jp_position = [fst coord, snd coord, 500], jp_count = Suc (length rest),
            jp_color = getStatusColor (aggregateStatus (st # map fst rest)),
            jp_status = aggregateStatus (st # map fst rest) \<rparr>"

definition visited :: "string \<Rightarrow> junctionPoint \<Rightarrow> junctionPoint" where
  "visited st e =
     e\<lparr> jp_status := foldStatus (jp_status e) st,
        jp_color := (if foldStatus (jp_status e) st = jp_status e then jp_color e
                     else getStatusColor st),
        jp_count := jp_count e + 1 \<rparr>"

definition arcOf :: "junctionPoint \<Rightarrow> arc list" where
  "arcOf point =
     (if jp_count point > 1 \<and> jp_status point \<noteq> ''down'' then
        [\<lparr> arc_position = jp_position point,
           arc_intensity = min (0.2 + real (jp_count point) * 0.1) 0.8,
           arc_color = jp_color point \<rparr>]
      else [])"

subsection \<open>The state of Root and its particle effect\<close>

text \<open>
  The visibility flags of the layers; \<open>power_layer\<close> is the flag \<open>power\<close> of the
  source.
\<close>

record layer_visibility =
  prec :: bool
  rfcst :: bool
  tower :: bool
  flood :: bool
  power_layer :: bool
  infrastructure :: bool

record root =
  infrastructureData :: "infrastructure_data option"
  animationFrame :: nat
  powerParticles :: "particle list"
  layerVisibility :: layer_visibility

text \<open>The animation timer: \<open>setAnimationFrame(prev => (prev + 1) % 360)\<close>.\<close>

definition animate :: "root \<Rightarrow> root" where
  "animate s = s\<lparr> animationFrame := (animationFrame s + 1) mod 360 \<rparr>"

text \<open>
  The effect that follows \<open>infrastructureData\<close> and \<open>layerVisibility.power\<close>:
  \<open>if (infrastructureData && infrastructureData.hierarchical_power_cables && layerVisibility.power)
  setPowerParticles(generateParticles(...)) else setPowerParticles([])\<close>.
\<close>

definition updateParticles :: "root \<Rightarrow> root" where
  "updateParticles s =
     (case infrastructureData s of
        None \<Rightarrow> s\<lparr> powerParticles := [] \<rparr>
      | Some d \<Rightarrow>
          (case hierarchical_power_cables d of
             None \<Rightarrow> s\<lparr> powerParticles := [] \<rparr>
           | Some cables \<Rightarrow>
               if power_layer (layerVisibility s)
               then s\<lparr> powerParticles := generateParticles (Some cables) \<rparr>
               else s\<lparr> powerParticles := [] \<rparr>))"


section \<open>Properties of the playback controller\<close>

lemma length_generateDefaultTimesteps: "length generateDefaultTimesteps = 48"
  by (simp add: generateDefaultTimesteps_def length_concat comp_def sum_list_triv)

lemma timesteps_nonempty: "0 < length (timesteps availableTimesteps)"
  using length_generateDefaultTimesteps by (auto simp add: timesteps_def)

lemma jsRemInt_nonneg: "0 \<le> a \<Longrightarrow> 0 < b \<Longrightarrow> jsRemInt a b = a mod b"
  by (simp add: jsRemInt_def)

lemma playInterval_tick [simp]: "playInterval (tick s) = playInterval s"
  by (simp add: tick_def split: option.split interval.split)

lemma isPlaying_tick [simp]: "isPlaying (tick s) = isPlaying s"
  by (simp add: tick_def split: option.split interval.split)

lemma playInterval_ticks [simp]: "playInterval (ticks n s) = playInterval s"
  by (induction n arbitrary: s) simp_all

lemma isPlaying_ticks [simp]: "isPlaying (ticks n s) = isPlaying s"
  by (induction n arbitrary: s) simp_all

lemma ticks_Suc_right: "ticks (Suc n) s = tick (ticks n s)"
  by (induction n arbitrary: s) simp_all

lemma currentTimestep_tick:
  assumes "playInterval s = Some (Interval len)" and "0 < len" and "0 \<le> currentTimestep s"
  shows "currentTimestep (tick s) = (currentTimestep s + 1) mod int len"
  using assms by (simp add: tick_def jsRemInt_nonneg)

lemma currentTimestep_ticks:
  assumes "playInterval s = Some (Interval len)" and "0 < len"
    and "0 \<le> currentTimestep s" and "currentTimestep s < int len"
  shows "currentTimestep (ticks n s) = (currentTimestep s + int n) mod int len"
  using assms
proof (induction n arbitrary: s)
  case 0
  then show ?case by simp
next
  case (Suc n)
  let ?s = "tick s"
  have step: "currentTimestep ?s = (currentTimestep s + 1) mod int len"
    using Suc.prems by (simp add: currentTimestep_tick)
  have "currentTimestep (ticks n ?s) = (currentTimestep ?s + int n) mod int len"
    using Suc.prems by (intro Suc.IH) (simp_all add: step)
  also have "\<dots> = (currentTimestep s + int (Suc n)) mod int len"
    by (simp add: step mod_simps ac_simps)
  finally show ?case by simp
qed

text \<open>
  Claim C1. Playback is started from the idle state at a valid index \<open>i\<close> of a
  sequence of length \<open>L\<close> (the sequence in use: the supplied one when it is non-empty,
  the 48 default entries otherwise). Then playback stays active, every tick moves the
  index to its successor modulo \<open>L\<close>, and after \<open>n\<close> ticks the index is
  \<open>(i + n) mod L\<close>.
\<close>

theorem playback_advances_mod_length:
  assumes "\<not> isPlaying s"
    and "0 \<le> currentTimestep s"
    and "currentTimestep s < int (length (timesteps availableTimesteps))"
  shows "isPlaying (ticks n (handlePlay availableTimesteps s))
       \<and> currentTimestep (ticks n (handlePlay availableTimesteps s))
           = (currentTimestep s + int n) mod int (length (timesteps availableTimesteps))
       \<and> currentTimestep (ticks (Suc n) (handlePlay availableTimesteps s))
           = (currentTimestep (ticks n (handlePlay availableTimesteps s)) + 1)
               mod int (length (timesteps availableTimesteps))"
proof -
  let ?L = "length (timesteps availableTimesteps)"
  let ?p = "handlePlay availableTimesteps s"
  have iv: "playInterval ?p = Some (Interval ?L)" and cur: "currentTimestep ?p = currentTimestep s"
    and pl: "isPlaying ?p"
    using assms(1) by (simp_all add: handlePlay_def)
  have pos: "0 < ?L" by (rule timesteps_nonempty)
  have at: "currentTimestep (ticks m ?p) = (currentTimestep s + int m) mod int ?L" for m
    using currentTimestep_ticks [OF iv pos, of m] assms(2,3) by (simp add: cur)
  have "currentTimestep (ticks (Suc n) ?p) = (currentTimestep (ticks n ?p) + 1) mod int ?L"
    by (simp only: at) (simp add: mod_simps ac_simps)
  with at [of n] pl show ?thesis by simp
qed

theorem playback_advances_mod_length_witness:
  "currentTimestep (ticks 4 (handlePlay
      [\<lparr>time = ''t0'', display = ''0''\<rparr>, \<lparr>time = ''t1'', display = ''1''\<rparr>,
       \<lparr>time = ''t2'', display = ''2''\<rparr>, \<lparr>time = ''t3'', display = ''3''\<rparr>,
       \<lparr>time = ''t4'', display = ''4''\<rparr>]
      \<lparr>isPlaying = False, currentTimestep = 3, playInterval = None\<rparr>)) = 2"
  using playback_advances_mod_length [of "\<lparr>isPlaying = False, currentTimestep = 3, playInterval = None\<rparr>"
      "[\<lparr>time = ''t0'', display = ''0''\<rparr>, \<lparr>time = ''t1'', display = ''1''\<rparr>,
       \<lparr>time = ''t2'', display = ''2''\<rparr>, \<lparr>time = ''t3'', display = ''3''\<rparr>,
       \<lparr>time = ''t4'', display = ''4''\<rparr>]" 4]
  by (simp add: timesteps_def)


lemma currentTimestep_handleTimestepClick [simp]:
  "currentTimestep (handleTimestepClick index s) = index"
  by (simp add: handleTimestepClick_def Let_def)

lemma isPlaying_handleTimestepClick [simp]:
  "isPlaying (handleTimestepClick index s) = False"
  by (simp add: handleTimestepClick_def Let_def)

lemma playInterval_handleTimestepClick [simp]:
  "playInterval (handleTimestepClick index s) = (if isPlaying s then None else playInterval s)"
  by (simp add: handleTimestepClick_def Let_def)

lemma handleTimestepClick_changes:
  "index \<noteq> currentTimestep s \<Longrightarrow> handleTimestepClick index s \<noteq> s"
  by (metis currentTimestep_handleTimestepClick)

lemma ticks_without_timer: "playInterval s = None \<Longrightarrow> ticks n s = s"
  by (induction n) (simp_all add: tick_def)

text \<open>
  Claim C7, as the code has it. \<open>handleTimestepClick\<close> does not validate its argument:
  an index outside the sequence in use is stored as the current index and playback is
  paused, exactly as for a valid index. No entry exists at that index, so the listener
  receives nothing. The function is total: no exception is raised. The sequence in use is
  never empty (an empty supplied sequence is replaced by the 48 default entries), so
  "out of range" is always relative to a non-empty sequence.
\<close>

theorem out_of_range_selection_is_stored:
  assumes "index < 0 \<or> int (length (timesteps availableTimesteps)) \<le> index"
  shows "currentTimestep (handleTimestepClick index s) = index
       \<and> isPlaying (handleTimestepClick index s) = False
       \<and> playInterval (handleTimestepClick index s) = (if isPlaying s then None else playInterval s)
       \<and> currentEntry availableTimesteps (handleTimestepClick index s) = None
       \<and> emitted availableTimesteps s (handleTimestepClick index s) = []"
  using assms by (auto simp add: currentEntry_def arrayGet_def emitted_def notifyEffect_def)

theorem out_of_range_selection_is_stored_witness:
  "handleTimestepClick 48 \<lparr>isPlaying = True, currentTimestep = 7, playInterval = Some (Interval 48)\<rparr>
     = \<lparr>isPlaying = False, currentTimestep = 48, playInterval = None\<rparr>
   \<and> emitted [] \<lparr>isPlaying = True, currentTimestep = 7, playInterval = Some (Interval 48)\<rparr>
       (handleTimestepClick 48 \<lparr>isPlaying = True, currentTimestep = 7, playInterval = Some (Interval 48)\<rparr>) = []"
  using out_of_range_selection_is_stored [of 48 "[]"
      "\<lparr>isPlaying = True, currentTimestep = 7, playInterval = Some (Interval 48)\<rparr>"]
  by (simp add: timesteps_def length_generateDefaultTimesteps handleTimestepClick_def)

text \<open>
  Claim C7 as stated fails: with three timesteps, index 0 current and playback active,
  selecting index 5 changes both the current index and the play state.
\<close>

theorem out_of_range_selection_counterexample:
  "arrayGet (timesteps [\<lparr>time = ''t0'', display = ''0''\<rparr>, \<lparr>time = ''t1'', display = ''1''\<rparr>,
                        \<lparr>time = ''t2'', display = ''2''\<rparr>]) 5 = None
   \<and> handleTimestepClick 5 \<lparr>isPlaying = True, currentTimestep = 0, playInterval = Some (Interval 3)\<rparr>
       = \<lparr>isPlaying = False, currentTimestep = 5, playInterval = None\<rparr>
   \<and> handleTimestepClick 5 \<lparr>isPlaying = True, currentTimestep = 0, playInterval = Some (Interval 3)\<rparr>
       \<noteq> \<lparr>isPlaying = True, currentTimestep = 0, playInterval = Some (Interval 3)\<rparr>"
  by (simp add: handleTimestepClick_def arrayGet_def timesteps_def)

text \<open>
  Claim C8, as the code has it. For a valid index \<open>i\<close> of the sequence in use,
  \<open>handleTimestepClick i\<close> makes \<open>i\<close> the current index, so that the current entry
  is the \<open>i\<close>-th one; playback is paused, and when it was active its timer is dropped,
  after which ticks no longer move the index. The listener receives the \<open>i\<close>-th
  timestep whenever \<open>i\<close> differs from the index held before.
\<close>

theorem selectIndex_sets_current:
  assumes "0 \<le> i" and "i < int (length (timesteps availableTimesteps))"
  shows "currentTimestep (handleTimestepClick i s) = i
       \<and> currentEntry availableTimesteps (handleTimestepClick i s)
           = Some (timesteps availableTimesteps ! nat i)
       \<and> isPlaying (handleTimestepClick i s) = False
       \<and> (isPlaying s \<longrightarrow> playInterval (handleTimestepClick i s) = None
                        \<and> ticks n (handleTimestepClick i s) = handleTimestepClick i s)
       \<and> (i \<noteq> currentTimestep s \<longrightarrow>
            emitted availableTimesteps s (handleTimestepClick i s)
              = [timesteps availableTimesteps ! nat i])"
proof -
  let ?s' = "handleTimestepClick i s"
  have entry: "currentEntry availableTimesteps ?s' = Some (timesteps availableTimesteps ! nat i)"
    using assms by (simp add: currentEntry_def arrayGet_def)
  have stop: "ticks n ?s' = ?s'" if "isPlaying s"
    using that by (intro ticks_without_timer) simp
  have emit: "emitted availableTimesteps s ?s' = [timesteps availableTimesteps ! nat i]"
    if "i \<noteq> currentTimestep s"
    using that handleTimestepClick_changes [OF that]
    by (simp add: emitted_def notifyEffect_def entry)
  show ?thesis using entry stop emit by simp
qed

theorem selectIndex_sets_current_witness:
  "currentTimestep (handleTimestepClick 2
      \<lparr>isPlaying = True, currentTimestep = 1, playInterval = Some (Interval 3)\<rparr>) = 2
   \<and> isPlaying (handleTimestepClick 2
      \<lparr>isPlaying = True, currentTimestep = 1, playInterval = Some (Interval 3)\<rparr>) = False
   \<and> playInterval (handleTimestepClick 2
      \<lparr>isPlaying = True, currentTimestep = 1, playInterval = Some (Interval 3)\<rparr>) = None
   \<and> emitted [\<lparr>time = ''T0'', display = ''0''\<rparr>, \<lparr>time = ''T1'', display = ''1''\<rparr>,
               \<lparr>time = ''T2'', display = ''2''\<rparr>]
        \<lparr>isPlaying = True, currentTimestep = 1, playInterval = Some (Interval 3)\<rparr>
        (handleTimestepClick 2
          \<lparr>isPlaying = True, currentTimestep = 1, playInterval = Some (Interval 3)\<rparr>)
      = [\<lparr>time = ''T2'', display = ''2''\<rparr>]"
  using selectIndex_sets_current [of 2
      "[\<lparr>time = ''T0'', display = ''0''\<rparr>, \<lparr>time = ''T1'', display = ''1''\<rparr>,
        \<lparr>time = ''T2'', display = ''2''\<rparr>]"
      "\<lparr>isPlaying = True, currentTimestep = 1, playInterval = Some (Interval 3)\<rparr>" 0]
  by (simp add: timesteps_def)

text \<open>
  Claim C8 as stated fails in its last part: selecting the index that is already current
  while paused leaves every state cell as it was, so no dependency of the notification
  effect changes and the listener receives nothing.
\<close>

theorem selectIndex_same_index_counterexample:
  "(0::int) < int (length (timesteps [\<lparr>time = ''T0'', display = ''0''\<rparr>,
                                       \<lparr>time = ''T1'', display = ''1''\<rparr>]))
   \<and> handleTimestepClick 0 \<lparr>isPlaying = False, currentTimestep = 0, playInterval = None\<rparr>
       = \<lparr>isPlaying = False, currentTimestep = 0, playInterval = None\<rparr>
   \<and> emitted [\<lparr>time = ''T0'', display = ''0''\<rparr>, \<lparr>time = ''T1'', display = ''1''\<rparr>]
        \<lparr>isPlaying = False, currentTimestep = 0, playInterval = None\<rparr>
        (handleTimestepClick 0 \<lparr>isPlaying = False, currentTimestep = 0, playInterval = None\<rparr>)
      = []"
  by (simp add: handleTimestepClick_def emitted_def timesteps_def)

section \<open>Properties of the status colours\<close>

lemma digitRuns_red: "digitRuns ''rgb(255, 0, 0)'' = [''255'', ''0'', ''0'']"
  by (simp add: isDigit_def)

lemma digitRuns_yellow: "digitRuns ''rgb(255, 255, 0)'' = [''255'', ''255'', ''0'']"
  by (simp add: isDigit_def)

lemma digitRuns_green: "digitRuns ''rgb(0, 255, 0)'' = [''0'', ''255'', ''0'']"
  by (simp add: isDigit_def)

lemma Number_255: "Number ''255'' = 255" and Number_0: "Number ''0'' = 0"
  by (simp_all add: Number_def digitValue_def)

text \<open>
  Claim C9. For every status string, the numbers parsed out of
  \<open>getStatusColorString status\<close> are the triple \<open>getStatusColor status\<close>; hence the
  glow and the flow layer, which parse the string, obtain the colour of the tuple
  function (no fallback is ever taken). The common mapping is: down is red, warning and
  high_load are yellow, everything else is green.
\<close>

theorem color_string_parses_to_color_tuple:
  "map_option (map Number) (matchDigits (getStatusColorString st)) = Some (getStatusColor st)
   \<and> glowRgb st = getStatusColor st
   \<and> flowRgb st = getStatusColor st
   \<and> getStatusColor st =
        (if st = ''down'' then [255, 0, 0]
         else if st = ''warning'' \<or> st = ''high_load'' then [255, 255, 0]
         else [0, 255, 0])"
  by (simp add: getStatusColorString_def getStatusColor_def glowRgb_def flowRgb_def
      parseColorString_def matchDigits_def startsWith_def digitRuns_red digitRuns_yellow
      digitRuns_green Number_255 Number_0 del: digitRuns.simps)


section \<open>Properties of arc paths\<close>

lemma length_arcPoints: "length (arcPoints cs) = 2 * length cs - 1"
  by (induction cs rule: arcPoints.induct) simp_all



lemma length_createArcPath:
  "length (createArcPath cs) = (if length cs < 2 then length cs else 2 * length cs - 1)"
  by (simp add: createArcPath_def length_arcPoints)






section \<open>Properties of particle generation\<close>






lemma length_segmentParticles: "length (segmentParticles li c i a b) = particleCount"
  by (simp add: segmentParticles_def)

lemma length_concat_const:
  "(\<And>x. x \<in> set xs \<Longrightarrow> length (f x) = k) \<Longrightarrow> length (concat (map f xs)) = length xs * k"
  by (induction xs) simp_all

lemma length_lineParticles:
  "length (lineParticles li l)
     = (if status l = ''down'' then 0
        else (length (createArcPath (coordinates l)) - 1) * particleCount)"
  by (simp add: lineParticles_def Let_def length_concat_const length_segmentParticles)







section \<open>Properties of the particle effect\<close>

text \<open>
  Claim C10. The effect overwrites the particle state whatever it held before. When the
  power layer is hidden, or there is no infrastructure data, or the data has no cable
  collection, the new particle list is empty. Conversely a non-empty particle list after
  the effect means that the layer is visible and that the list was generated from the
  cable collection present in the data.
\<close>

theorem particles_cleared_without_cables_or_visibility:
  "(\<not> power_layer (layerVisibility s) \<or> infrastructureData s = None
      \<or> (\<exists>d. infrastructureData s = Some d \<and> hierarchical_power_cables d = None)
     \<longrightarrow> powerParticles (updateParticles s) = [])
   \<and> (powerParticles (updateParticles s) \<noteq> [] \<longrightarrow>
        power_layer (layerVisibility s)
        \<and> (\<exists>d cables. infrastructureData s = Some d \<and> hierarchical_power_cables d = Some cables
              \<and> powerParticles (updateParticles s) = generateParticles (Some cables)))"
  by (auto simp add: updateParticles_def split: option.splits)

theorem particles_cleared_without_cables_or_visibility_witness:
  "powerParticles (updateParticles
     \<lparr> infrastructureData = Some \<lparr> hierarchical_power_cables = Some \<lparr> features =
          Some [\<lparr> status = ''operational'', coordinates = [(0, 0), (3, 4)] \<rparr>] \<rparr> \<rparr>,
       animationFrame = 0,
       powerParticles = [\<lparr> particle_id = ''0-0-0'', startPoint = [0, 0, 30],
          endPoint = [3 / 2, 2, 119 / 4], lineIndex = 0, segmentIndex = 0, particleIndex = 0,
          phase = 0, color = [0, 255, 0] \<rparr>],
       layerVisibility = \<lparr> prec = False, rfcst = False, tower = False, flood = True,
          power_layer = False, infrastructure = True \<rparr> \<rparr>) = []
   \<and> length (powerParticles (updateParticles
     \<lparr> infrastructureData = Some \<lparr> hierarchical_power_cables = Some \<lparr> features =
          Some [\<lparr> status = ''operational'', coordinates = [(0, 0), (3, 4)] \<rparr>] \<rparr> \<rparr>,
       animationFrame = 0,
       powerParticles = [],
       layerVisibility = \<lparr> prec = False, rfcst = False, tower = False, flood = True,
          power_layer = True, infrastructure = True \<rparr> \<rparr>)) = 6"
proof -
  let ?cables = "\<lparr> features =
          Some [\<lparr> status = ''operational'', coordinates = [(0, 0), (3, 4::real)] \<rparr>] \<rparr>"
  let ?p = "\<lparr> particle_id = ''0-0-0'', startPoint = [0, 0, 30],
          endPoint = [3 / 2, 2, 119 / 4], lineIndex = 0, segmentIndex = 0, particleIndex = 0,
          phase = 0, color = [0, 255, 0] \<rparr>"
  let ?hidden = "\<lparr> infrastructureData = Some \<lparr> hierarchical_power_cables = Some ?cables \<rparr>,
       animationFrame = 0, powerParticles = [?p],
       layerVisibility = \<lparr> prec = False, rfcst = False, tower = False, flood = True,
          power_layer = False, infrastructure = True \<rparr> \<rparr>"
  let ?shown = "\<lparr> infrastructureData = Some \<lparr> hierarchical_power_cables = Some ?cables \<rparr>,
       animationFrame = 0, powerParticles = [],
       layerVisibility = \<lparr> prec = False, rfcst = False, tower = False, flood = True,
          power_layer = True, infrastructure = True \<rparr> \<rparr>"
  have cleared: "powerParticles (updateParticles ?hidden) = []"
    using particles_cleared_without_cables_or_visibility [of ?hidden, THEN conjunct1] by simp
  have six: "length (generateParticles (Some ?cables)) = 6"
    by (simp add: generateParticles_def length_lineParticles length_createArcPath
        particleCount_def)
  have "powerParticles (updateParticles ?shown) = generateParticles (Some ?cables)"
    by (simp add: updateParticles_def)
  then have "powerParticles (updateParticles ?shown) \<noteq> []"
    using six by auto
  then have "\<exists>d cables. infrastructureData ?shown = Some d
      \<and> hierarchical_power_cables d = Some cables
      \<and> powerParticles (updateParticles ?shown) = generateParticles (Some cables)"
    using particles_cleared_without_cables_or_visibility [of ?shown, THEN conjunct2] by blast
  then have "powerParticles (updateParticles ?shown) = generateParticles (Some ?cables)"
    by simp
  with cleared six show ?thesis by simp
qed


section \<open>Properties of particle positions\<close>

lemma jsRem_frac:
  assumes "0 \<le> a" and "0 < b"
  shows "jsRem a b / b = frac (a / b)"
proof -
  have "0 \<le> a / b" using assms by simp
  then have "jsRem a b = a - b * of_int \<lfloor>a / b\<rfloor>" by (simp add: jsRem_def)
  then show ?thesis using assms by (simp add: frac_def field_simps)
qed

lemma frameT_frac:
  assumes "0 \<le> phase p"
  shows "frameT frame p = frac ((real frame * 0.02 + phase p) / (2 * pi))"
proof -
  have "0 \<le> real frame * 0.02 + phase p" using assms by simp
  then show ?thesis
    unfolding frameT_def Let_def by (intro jsRem_frac) simp_all
qed

lemma sin_eq_1_half:
  assumes "0 \<le> t" and "t < 1"
  shows "sin (t * pi) = 1 \<longleftrightarrow> t = 1 / 2"
proof
  assume s: "sin (t * pi) = 1"
  have "(sin (t * pi))\<^sup>2 + (cos (t * pi))\<^sup>2 = 1" by (rule sin_cos_squared_add)
  then have "cos (t * pi) = 0" by (simp add: s)
  then have c: "cos (t * pi) = cos (pi / 2)" by simp
  have lo: "0 \<le> t * pi" and hi: "t * pi \<le> pi"
    using assms by (simp_all add: mult_left_le_one_le)
  have "t * pi = pi / 2"
    by (rule cos_inj_pi [OF lo hi _ _ c]) simp_all
  then show "t = 1 / 2" by simp
next
  assume h: "t = 1 / 2"
  show "sin (t * pi) = 1" unfolding h by simp
qed

lemma sin_unit_range:
  assumes "0 \<le> t" and "t < 1"
  shows "0 \<le> sin (t * pi)"
proof -
  have "0 \<le> t * pi" "t * pi \<le> pi" using assms by (simp_all add: mult_left_le_one_le)
  then show ?thesis by (rule sin_ge_zero)
qed

lemma alpha_positionAtFrame:
  "alpha (positionAtFrame frame p) = sin (frameT frame p * pi) * 0.8 + 0.2"
  by (simp add: positionAtFrame_def Let_def particle.defs positionedParticle.defs)

lemma position_positionAtFrame:
  "position (positionAtFrame frame p)
     = interpolatePosition (startPoint p) (endPoint p) (frameT frame p)"
  by (simp add: positionAtFrame_def Let_def particle.defs positionedParticle.defs)

lemma jsRem_0: "jsRem 0 b = 0"
  by (simp add: jsRem_def)

lemma jsRem_small: "0 \<le> a \<Longrightarrow> a < b \<Longrightarrow> jsRem a b = a"
proof -
  assume a: "0 \<le> a" "a < b"
  then have "0 \<le> a / b" "a / b < 1" by simp_all
  then have "\<lfloor>a / b\<rfloor> = 0" by linarith
  with \<open>0 \<le> a / b\<close> show ?thesis by (simp add: jsRem_def)
qed

lemma jsRem_pi: "jsRem pi (2 * pi) = pi"
  by (rule jsRem_small) simp_all


text \<open>
  Claim C3, as the code has it, over exact real arithmetic. For a particle with a
  non-negative phase (every generated particle has one) and every frame, \<open>t\<close> is the
  fractional part of \<open>(frame * 0.02 + phase) / (2 * pi)\<close>, so \<open>0 \<le> t < 1\<close>; the
  position is the linear interpolation from the start point to the end point by \<open>t\<close>;
  and the fade factor is \<open>alpha = 0.8 * sin (t * pi) + 0.2\<close>. It lies in
  \<open>[0.2, 1]\<close>, is \<open>0.2\<close> at \<open>t = 0\<close>, and takes its maximum \<open>1\<close> exactly at
  \<open>t = 1 / 2\<close>. The value \<open>t = 1\<close> is never reached.
\<close>

theorem positionAtFrame_fade:
  assumes "0 \<le> phase p"
  shows "frameT frame p = frac ((real frame * 0.02 + phase p) / (2 * pi))
       \<and> 0 \<le> frameT frame p \<and> frameT frame p < 1
       \<and> position (positionAtFrame frame p)
           = [startPoint p ! 0 + (endPoint p ! 0 - startPoint p ! 0) * frameT frame p,
              startPoint p ! 1 + (endPoint p ! 1 - startPoint p ! 1) * frameT frame p,
              startPoint p ! 2 + (endPoint p ! 2 - startPoint p ! 2) * frameT frame p]
       \<and> alpha (positionAtFrame frame p) = 0.8 * sin (frameT frame p * pi) + 0.2
       \<and> 0.2 \<le> alpha (positionAtFrame frame p) \<and> alpha (positionAtFrame frame p) \<le> 1
       \<and> (frameT frame p = 0 \<longrightarrow> alpha (positionAtFrame frame p) = 0.2)
       \<and> (alpha (positionAtFrame frame p) = 1 \<longleftrightarrow> frameT frame p = 1 / 2)"
proof -
  let ?t = "frameT frame p"
  have t: "?t = frac ((real frame * 0.02 + phase p) / (2 * pi))"
    using assms by (rule frameT_frac)
  have range: "0 \<le> ?t" "?t < 1"
    unfolding t by (simp_all add: frac_lt_1)
  have pos: "position (positionAtFrame frame p)
           = [startPoint p ! 0 + (endPoint p ! 0 - startPoint p ! 0) * ?t,
              startPoint p ! 1 + (endPoint p ! 1 - startPoint p ! 1) * ?t,
              startPoint p ! 2 + (endPoint p ! 2 - startPoint p ! 2) * ?t]"
    by (simp add: position_positionAtFrame interpolatePosition_def)
  have a: "alpha (positionAtFrame frame p) = 0.8 * sin (?t * pi) + 0.2"
    by (simp add: alpha_positionAtFrame)
  have lo: "0 \<le> sin (?t * pi)" using range by (rule sin_unit_range)
  have top: "sin (?t * pi) = 1 \<longleftrightarrow> ?t = 1 / 2" using range by (rule sin_eq_1_half)
  have zero: "?t = 0 \<longrightarrow> alpha (positionAtFrame frame p) = 0.2"
    by (simp add: a)
  have bounds: "0.2 \<le> alpha (positionAtFrame frame p)" "alpha (positionAtFrame frame p) \<le> 1"
    unfolding a using lo sin_le_one [of "?t * pi"] by linarith+
  have max: "alpha (positionAtFrame frame p) = 1 \<longleftrightarrow> ?t = 1 / 2"
  proof -
    have "alpha (positionAtFrame frame p) = 1 \<longleftrightarrow> sin (?t * pi) = 1"
      unfolding a by linarith
    then show ?thesis by (simp only: top)
  qed
  show ?thesis
    by (intro conjI) (fact t range pos a bounds zero max)+
qed

theorem positionAtFrame_fade_witness:
  "frameT 0 \<lparr> particle_id = ''0-0-0'', startPoint = [0, 0, 30], endPoint = [3 / 2, 2, 119 / 4],
     lineIndex = 0, segmentIndex = 0, particleIndex = 0, phase = pi, color = [0, 255, 0] \<rparr> = 1 / 2
   \<and> alpha (positionAtFrame 0 \<lparr> particle_id = ''0-0-0'', startPoint = [0, 0, 30], endPoint = [3 / 2, 2, 119 / 4],
     lineIndex = 0, segmentIndex = 0, particleIndex = 0, phase = pi, color = [0, 255, 0] \<rparr>) = 1
   \<and> position (positionAtFrame 0 \<lparr> particle_id = ''0-0-0'', startPoint = [0, 0, 30], endPoint = [3 / 2, 2, 119 / 4],
     lineIndex = 0, segmentIndex = 0, particleIndex = 0, phase = pi, color = [0, 255, 0] \<rparr>)
      = [3 / 4, 1, 239 / 8]
   \<and> frameT 0 \<lparr> particle_id = ''0-0-0'', startPoint = [0, 0, 30], endPoint = [3 / 2, 2, 119 / 4],
     lineIndex = 0, segmentIndex = 0, particleIndex = 0, phase = 0, color = [0, 255, 0] \<rparr> = 0
   \<and> alpha (positionAtFrame 0 \<lparr> particle_id = ''0-0-0'', startPoint = [0, 0, 30], endPoint = [3 / 2, 2, 119 / 4],
     lineIndex = 0, segmentIndex = 0, particleIndex = 0, phase = 0, color = [0, 255, 0] \<rparr>) = 1 / 5"
proof -
  let ?mid = "\<lparr> particle_id = ''0-0-0'', startPoint = [0, 0, 30], endPoint = [3 / 2, 2, 119 / 4],
     lineIndex = 0, segmentIndex = 0, particleIndex = 0, phase = pi, color = [0, 255, 0] \<rparr>"
  let ?start = "\<lparr> particle_id = ''0-0-0'', startPoint = [0, 0, 30], endPoint = [3 / 2, 2, 119 / 4],
     lineIndex = 0, segmentIndex = 0, particleIndex = 0, phase = 0, color = [0, 255, 0] \<rparr>"
  have t_mid: "frameT 0 ?mid = 1 / 2"
    by (simp add: frameT_def jsRem_pi)
  have t_start: "frameT 0 ?start = 0"
    by (simp add: frameT_def jsRem_0)
  have mid: "alpha (positionAtFrame 0 ?mid) = 1
      \<and> position (positionAtFrame 0 ?mid) = [3 / 4, 1, 239 / 8]"
    using positionAtFrame_fade [of ?mid 0] by (simp add: t_mid)
  have start: "alpha (positionAtFrame 0 ?start) = 1 / 5"
    using positionAtFrame_fade [of ?start 0] by (simp add: t_start)
  from t_mid t_start mid start show ?thesis by simp
qed

text \<open>
  Claim C3 as stated fails: the fade factor is not \<open>sin (t * pi)\<close> and is not zero at
  \<open>t = 0\<close>. At frame 0 a particle of phase 0 has \<open>t = 0\<close> and fade factor \<open>0.2\<close>.
\<close>

theorem positionAtFrame_fade_counterexample:
  "frameT 0 \<lparr> particle_id = ''0-0-0'', startPoint = [0, 0, 30], endPoint = [3 / 2, 2, 119 / 4],
     lineIndex = 0, segmentIndex = 0, particleIndex = 0, phase = 0, color = [0, 255, 0] \<rparr> = 0
   \<and> alpha (positionAtFrame 0 \<lparr> particle_id = ''0-0-0'', startPoint = [0, 0, 30], endPoint = [3 / 2, 2, 119 / 4],
     lineIndex = 0, segmentIndex = 0, particleIndex = 0, phase = 0, color = [0, 255, 0] \<rparr>) = 1 / 5
   \<and> alpha (positionAtFrame 0 \<lparr> particle_id = ''0-0-0'', startPoint = [0, 0, 30], endPoint = [3 / 2, 2, 119 / 4],
     lineIndex = 0, segmentIndex = 0, particleIndex = 0, phase = 0, color = [0, 255, 0] \<rparr>) \<noteq> 0
   \<and> alpha (positionAtFrame 0 \<lparr> particle_id = ''0-0-0'', startPoint = [0, 0, 30], endPoint = [3 / 2, 2, 119 / 4],
     lineIndex = 0, segmentIndex = 0, particleIndex = 0, phase = 0, color = [0, 255, 0] \<rparr>)
     \<noteq> sin (frameT 0 \<lparr> particle_id = ''0-0-0'', startPoint = [0, 0, 30], endPoint = [3 / 2, 2, 119 / 4],
     lineIndex = 0, segmentIndex = 0, particleIndex = 0, phase = 0, color = [0, 255, 0] \<rparr> * pi)"
  by (simp add: alpha_positionAtFrame frameT_def jsRem_0)

section \<open>Properties of junction points and electrical arcs\<close>

lemma map_fst_mutate [simp]: "map fst (mutate k f xs) = map fst xs"
  by (induction xs) auto

lemma map_of_mutate:
  "map_of (mutate k f xs) k' = (if k' = k then map_option f (map_of xs k) else map_of xs k')"
  by (induction xs) auto

lemma findJunctionPoints_visits:
  "findJunctionPoints fs = fold (\<lambda>(st, coord). visitCoord st coord) (visits fs) []"
proof -
  have line: "fold (visitCoord (status l)) cs jp
      = fold (\<lambda>(st, coord). visitCoord st coord) (map (\<lambda>coord. (status l, coord)) cs) jp" for l cs jp
    by (simp add: fold_map comp_def)
  have "fold (\<lambda>line. fold (visitCoord (status line)) (coordinates line)) fs jp
      = fold (\<lambda>(st, coord). visitCoord st coord) (visits fs) jp" for jp
    by (induction fs arbitrary: jp) (simp_all add: visits_def line)
  then show ?thesis by (simp add: findJunctionPoints_def)
qed

lemma map_of_visitCoord:
  "map_of (visitCoord st c jp) k =
     (if k = junctionKey c then
        (case map_of jp k of
           None \<Rightarrow> Some \<lparr> jp_position = [fst c, snd c, 500], jp_count = 1,
                          jp_color = getStatusColor st, jp_status = st \<rparr>
         | Some e \<Rightarrow> Some (visited st e))
      else map_of jp k)"
  by (auto simp add: visitCoord_def Let_def map_of_mutate visited_def foldStatus_def
      map_add_def split: option.splits)

lemma keys_visitCoord:
  "map fst (visitCoord st c jp) =
     (if map_of jp (junctionKey c) = None then map fst jp @ [junctionKey c] else map fst jp)"
  by (auto simp add: visitCoord_def Let_def split: option.splits)

lemma distinct_visitCoord:
  "distinct (map fst jp) \<Longrightarrow> distinct (map fst (visitCoord st c jp))"
  by (auto simp add: keys_visitCoord map_of_eq_None_iff)


lemma entryOf_snoc:
  "entryOf (xs @ [(st, c)]) =
     (case entryOf xs of
        None \<Rightarrow> Some \<lparr> jp_position = [fst c, snd c, 500], jp_count = 1,
                       jp_color = getStatusColor st, jp_status = st \<rparr>
      | Some e \<Rightarrow> Some (visited st e))"
proof (cases xs)
  case Nil
  then show ?thesis by simp
next
  case (Cons x rest)
  obtain st0 c0 where x: "x = (st0, c0)" by (cases x)
  show ?thesis
    unfolding Cons x by (simp add: visited_def foldStatus_def)
qed

lemma junction_invariant:
  "distinct (map fst (fold (\<lambda>(st, coord). visitCoord st coord) vs []))
   \<and> (\<forall>k. map_of (fold (\<lambda>(st, coord). visitCoord st coord) vs []) k
          = entryOf (filter (\<lambda>(st, coord). junctionKey coord = k) vs))"
proof (induction vs rule: rev_induct)
  case Nil
  then show ?case by simp
next
  case (snoc v vs)
  obtain st c where v: "v = (st, c)" by (cases v)
  let ?jp = "fold (\<lambda>(st, coord). visitCoord st coord) vs []"
  have step: "fold (\<lambda>(st, coord). visitCoord st coord) (vs @ [v]) [] = visitCoord st c ?jp"
    by (simp add: v)
  have d: "distinct (map fst (visitCoord st c ?jp))"
    using snoc by (intro distinct_visitCoord) simp
  have m: "map_of (visitCoord st c ?jp) k
      = entryOf (filter (\<lambda>(st, coord). junctionKey coord = k) (vs @ [v]))" for k
  proof (cases "k = junctionKey c")
    case True
    have "filter (\<lambda>(st, coord). junctionKey coord = k) (vs @ [v])
        = filter (\<lambda>(st, coord). junctionKey coord = k) vs @ [(st, c)]"
      by (simp add: v True)
    then show ?thesis
      using snoc by (simp add: map_of_visitCoord True entryOf_snoc)
  next
    case False
    then have "filter (\<lambda>(st, coord). junctionKey coord = k) (vs @ [v])
        = filter (\<lambda>(st, coord). junctionKey coord = k) vs"
      by (auto simp add: v)
    then show ?thesis
      using snoc False by (simp add: map_of_visitCoord)
  qed
  show ?case unfolding step using d m by blast
qed

lemma map_of_findJunctionPoints:
  "map_of (findJunctionPoints fs) key = entryOf (visitsAt key fs)"
  using junction_invariant [of "visits fs"]
  by (simp add: findJunctionPoints_visits visitsAt_def)

lemma distinct_findJunctionPoints: "distinct (map fst (findJunctionPoints fs))"
  using junction_invariant [of "visits fs"] by (simp add: findJunctionPoints_visits)

lemma entryOf_key:
  assumes "entryOf (filter (\<lambda>(st, coord). junctionKey coord = k) vs) = Some p"
  shows "junctionKey (jp_position p ! 0, jp_position p ! 1) = k"
proof (cases "filter (\<lambda>(st, coord). junctionKey coord = k) vs")
  case Nil
  with assms show ?thesis by simp
next
  case (Cons x rest)
  obtain st c where x: "x = (st, c)" by (cases x)
  have "x \<in> set (filter (\<lambda>(st, coord). junctionKey coord = k) vs)"
    by (simp add: Cons)
  then have "junctionKey c = k" by (simp add: x)
  moreover have "jp_position p = [fst c, snd c, 500]"
    using assms by (auto simp add: Cons x)
  ultimately show ?thesis by simp
qed

lemma key_of_findJunctionPoints:
  assumes "(k, p) \<in> set (findJunctionPoints fs)"
  shows "junctionKey (jp_position p ! 0, jp_position p ! 1) = k"
proof -
  have "map_of (findJunctionPoints fs) k = Some p"
    using assms distinct_findJunctionPoints by (simp add: map_of_eq_Some_iff)
  then show ?thesis
    using entryOf_key [of k "visits fs" p] by (simp add: map_of_findJunctionPoints visitsAt_def)
qed

lemma createArcs_Cons: "createArcs ((k, p) # jp) = arcOf p @ createArcs jp"
  by (simp add: createArcs_def arcOf_def Let_def)

lemma arcKey_arcOf: "a \<in> set (arcOf p) \<Longrightarrow> arcKey a = junctionKey (jp_position p ! 0, jp_position p ! 1)"
  by (auto simp add: arcOf_def arcKey_def split: if_splits)

lemma filter_createArcs:
  assumes "distinct (map fst jp)"
    and "\<And>k p. (k, p) \<in> set jp \<Longrightarrow> junctionKey (jp_position p ! 0, jp_position p ! 1) = k"
  shows "filter (\<lambda>a. arcKey a = key) (createArcs jp)
           = (case map_of jp key of None \<Rightarrow> [] | Some p \<Rightarrow> arcOf p)"
  using assms
proof (induction jp)
  case Nil
  then show ?case by (simp add: createArcs_def)
next
  case (Cons kp jp)
  obtain k p where kp: "kp = (k, p)" by (cases kp)
  have keyp: "junctionKey (jp_position p ! 0, jp_position p ! 1) = k"
    using Cons.prems(2) [of k p] by (simp add: kp)
  have IH: "filter (\<lambda>a. arcKey a = key) (createArcs jp)
           = (case map_of jp key of None \<Rightarrow> [] | Some p \<Rightarrow> arcOf p)"
    using Cons.prems by (intro Cons.IH) (auto simp add: kp)
  have own: "filter (\<lambda>a. arcKey a = key) (arcOf p) = (if k = key then arcOf p else [])"
    using arcKey_arcOf [of _ p] keyp by (auto simp add: filter_empty_conv intro: filter_True)
  show ?case
  proof (cases "k = key")
    case True
    then have "map_of jp key = None"
      using Cons.prems(1) by (auto simp add: kp map_of_eq_None_iff)
    then show ?thesis by (simp add: kp createArcs_Cons own IH True)
  next
    case False
    then show ?thesis by (simp add: kp createArcs_Cons own IH)
  qed
qed

lemma foldStatus_worstStatus:
  assumes "x \<in> {''operational'', ''warning'', ''down''}"
  shows "foldStatus (worstStatus sts) x = worstStatus (sts @ [x])"
proof -
  consider "x = ''down''" | "x = ''warning''" | "x = ''operational''"
    using assms by auto
  then show ?thesis
  proof cases
    case 1
    then show ?thesis by (simp add: worstStatus_def foldStatus_def)
  next
    case 2
    then show ?thesis by (simp add: worstStatus_def foldStatus_def)
  next
    case 3
    then show ?thesis by (simp add: worstStatus_def foldStatus_def)
  qed
qed

lemma worstStatus_single:
  "st \<in> {''operational'', ''warning'', ''down''} \<Longrightarrow> worstStatus [st] = st"
  by (auto simp add: worstStatus_def)

lemma foldl_foldStatus_worst:
  assumes "set (st # sts) \<subseteq> {''operational'', ''warning'', ''down''}"
  shows "foldl foldStatus st sts = worstStatus (st # sts)"
  using assms
proof (induction sts rule: rev_induct)
  case Nil
  then show ?case by (simp add: worstStatus_single)
next
  case (snoc x xs)
  then have "foldl foldStatus st xs = worstStatus (st # xs)" by simp
  moreover have "x \<in> {''operational'', ''warning'', ''down''}" using snoc.prems by simp
  ultimately show ?case
    using foldStatus_worstStatus [of x "st # xs"] by simp
qed

lemma toString_0: "toString 0 = ''0''" and toString_1: "toString (Suc 0) = ''1''"
  by (simp_all add: toString.simps digitChar_def)

lemma padStart_6_0: "padStart 6 CHR ''0'' ''0'' = ''000000''"
  by (simp add: padStart_def numeral_eq_Suc)

lemma toFixed6_0: "toFixed6 0 = ''0.000000''"
  by (simp add: toFixed6_def toString_0 padStart_6_0)

lemma toFixed6_1: "toFixed6 1 = ''1.000000''"
proof -
  have "nat \<lfloor>\<bar>1::real\<bar> * 1000000 + 1 / 2\<rfloor> = 1000000" by simp
  then show ?thesis
    by (simp add: toFixed6_def toString_0 toString_1 padStart_6_0)
qed

lemma junctionKey_00: "junctionKey (0, 0) = ''0.000000,0.000000''"
  and junctionKey_10: "junctionKey (1, 0) = ''1.000000,0.000000''"
  and junctionKey_01: "junctionKey (0, 1) = ''0.000000,1.000000''"
  and junctionKey_11: "junctionKey (1, 1) = ''1.000000,1.000000''"
  by (simp_all add: junctionKey_def toFixed6_0 toFixed6_1)

lemma set_statusesAt:
  "set (statusesAt key fs)
     = {status l | l. l \<in> set fs \<and> (\<exists>c \<in> set (coordinates l). junctionKey c = key)}"
  by (force simp add: statusesAt_def visitsAt_def visits_def)

lemma worstStatus_cong: "set a = set b \<Longrightarrow> worstStatus a = worstStatus b"
  by (simp add: worstStatus_def)

lemma jp_status_findJunctionPoints:
  "map_option jp_status (map_of (findJunctionPoints fs) key)
     = (if statusesAt key fs = [] then None else Some (aggregateStatus (statusesAt key fs)))"
proof (cases "visitsAt key fs")
  case Nil
  then show ?thesis by (simp add: map_of_findJunctionPoints statusesAt_def)
next
  case (Cons v rest)
  obtain st c where v: "v = (st, c)" by (cases v)
  show ?thesis by (simp add: map_of_findJunctionPoints statusesAt_def Cons v)
qed

lemma aggregateStatus_worst:
  assumes "sts \<noteq> []" and "set sts \<subseteq> {''operational'', ''warning'', ''down''}"
  shows "aggregateStatus sts = worstStatus sts"
proof (cases sts)
  case Nil
  with assms show ?thesis by simp
next
  case (Cons st rest)
  then show ?thesis using assms(2) foldl_foldStatus_worst [of st rest] by simp
qed

lemma statusesAt_three:
  "statusesAt (junctionKey (0, 0))
     [\<lparr> status = ''operational'', coordinates = [(0, 0), (1, 0)] \<rparr>,
      \<lparr> status = ''warning'', coordinates = [(0, 0), (0, 1)] \<rparr>,
      \<lparr> status = ''operational'', coordinates = [(1, 1), (0, 0)] \<rparr>]
   = [''operational'', ''warning'', ''operational'']"
  by (simp add: statusesAt_def visitsAt_def visits_def junctionKey_00 junctionKey_10
      junctionKey_01 junctionKey_11)

lemma statusesAt_four:
  "statusesAt (junctionKey (0, 0))
     [\<lparr> status = ''down'', coordinates = [(0, 0), (1, 1)] \<rparr>,
      \<lparr> status = ''operational'', coordinates = [(0, 0), (1, 0)] \<rparr>,
      \<lparr> status = ''warning'', coordinates = [(0, 0), (0, 1)] \<rparr>,
      \<lparr> status = ''operational'', coordinates = [(1, 1), (0, 0)] \<rparr>]
   = [''down'', ''operational'', ''warning'', ''operational'']"
  by (simp add: statusesAt_def visitsAt_def visits_def junctionKey_00 junctionKey_10
      junctionKey_01 junctionKey_11)

lemma connectionCount_statuses: "connectionCount key fs = length (statusesAt key fs)"
  by (simp add: connectionCount_def statusesAt_def)

lemma arcs_at_key:
  "filter (\<lambda>a. arcKey a = key)
     (getElectricalArcs (Some \<lparr> hierarchical_power_cables = Some \<lparr> features = Some fs \<rparr> \<rparr>))
     = (case entryOf (visitsAt key fs) of None \<Rightarrow> [] | Some p \<Rightarrow> arcOf p)"
  using filter_createArcs [of "findJunctionPoints fs" key,
      OF distinct_findJunctionPoints key_of_findJunctionPoints]
  by (simp add: getElectricalArcs_def map_of_findJunctionPoints)

text \<open>
  Claim C2. Let every cable have one of the statuses operational, warning and down, and let
  some cable have a coordinate with the key \<open>key\<close>. Then the status that the incremental
  fold of \<open>getElectricalArcs\<close> leaves in the junction point of \<open>key\<close> is the worst
  status among the cable coordinates with that key (down before warning before
  operational), and it is the same for every list \<open>fs'\<close> that holds the same cables in
  another order.
\<close>

theorem junction_status_is_worst:
  assumes "\<forall>line \<in> set fs. status line \<in> {''operational'', ''warning'', ''down''}"
    and "statusesAt key fs \<noteq> []"
  shows "map_option jp_status (map_of (findJunctionPoints fs) key)
           = Some (worstStatus (statusesAt key fs))
       \<and> (\<forall>fs'. mset fs' = mset fs \<longrightarrow>
            map_option jp_status (map_of (findJunctionPoints fs') key)
              = Some (worstStatus (statusesAt key fs)))"
proof -
  have any: "map_option jp_status (map_of (findJunctionPoints fs') key)
      = Some (worstStatus (statusesAt key fs))" if "set fs' = set fs" for fs'
  proof -
    have same: "set (statusesAt key fs') = set (statusesAt key fs)"
      by (simp add: set_statusesAt that)
    then have ne: "statusesAt key fs' \<noteq> []"
      using assms(2) by (metis set_empty)
    have "set (statusesAt key fs') \<subseteq> {''operational'', ''warning'', ''down''}"
      unfolding same using assms(1) by (auto simp add: set_statusesAt)
    then have "aggregateStatus (statusesAt key fs') = worstStatus (statusesAt key fs')"
      using ne by (intro aggregateStatus_worst)
    also have "\<dots> = worstStatus (statusesAt key fs)"
      using same by (rule worstStatus_cong)
    finally show ?thesis
      using ne by (simp add: jp_status_findJunctionPoints)
  qed
  have "set fs' = set fs" if "mset fs' = mset fs" for fs'
    using that by (rule mset_eq_setD)
  with any show ?thesis by blast
qed

theorem junction_status_is_worst_witness:
  "map_option jp_status (map_of (findJunctionPoints
     [\<lparr> status = ''operational'', coordinates = [(0, 0), (1, 0)] \<rparr>,
      \<lparr> status = ''warning'', coordinates = [(0, 0), (0, 1)] \<rparr>,
      \<lparr> status = ''operational'', coordinates = [(1, 1), (0, 0)] \<rparr>]) (junctionKey (0, 0)))
     = Some ''warning''
   \<and> map_option jp_status (map_of (findJunctionPoints
     [\<lparr> status = ''down'', coordinates = [(0, 0), (1, 1)] \<rparr>,
      \<lparr> status = ''operational'', coordinates = [(0, 0), (1, 0)] \<rparr>,
      \<lparr> status = ''warning'', coordinates = [(0, 0), (0, 1)] \<rparr>,
      \<lparr> status = ''operational'', coordinates = [(1, 1), (0, 0)] \<rparr>]) (junctionKey (0, 0)))
     = Some ''down''
   \<and> map_option jp_status (map_of (findJunctionPoints
     [\<lparr> status = ''operational'', coordinates = [(0, 0), (1, 0)] \<rparr>,
      \<lparr> status = ''warning'', coordinates = [(0, 0), (0, 1)] \<rparr>,
      \<lparr> status = ''down'', coordinates = [(0, 0), (1, 1)] \<rparr>,
      \<lparr> status = ''operational'', coordinates = [(1, 1), (0, 0)] \<rparr>]) (junctionKey (0, 0)))
     = Some ''down''
   \<and> map_option jp_status (map_of (findJunctionPoints
     [\<lparr> status = ''operational'', coordinates = [(0, 0), (1, 0)] \<rparr>,
      \<lparr> status = ''warning'', coordinates = [(0, 0), (0, 1)] \<rparr>,
      \<lparr> status = ''operational'', coordinates = [(1, 1), (0, 0)] \<rparr>,
      \<lparr> status = ''down'', coordinates = [(0, 0), (1, 1)] \<rparr>]) (junctionKey (0, 0)))
     = Some ''down''"
proof -
  let ?a = "\<lparr> status = ''operational'', coordinates = [(0, 0), (1, 0::real)] \<rparr>"
  let ?b = "\<lparr> status = ''warning'', coordinates = [(0, 0), (0, 1::real)] \<rparr>"
  let ?c = "\<lparr> status = ''operational'', coordinates = [(1, 1), (0, 0::real)] \<rparr>"
  let ?d = "\<lparr> status = ''down'', coordinates = [(0, 0), (1, 1::real)] \<rparr>"
  let ?k = "junctionKey (0, 0)"
  have three: "map_option jp_status (map_of (findJunctionPoints [?a, ?b, ?c]) ?k) = Some ''warning''"
    using junction_status_is_worst [of "[?a, ?b, ?c]" ?k, THEN conjunct1]
    by (simp add: statusesAt_three worstStatus_def)
  note four = junction_status_is_worst [of "[?d, ?a, ?b, ?c]" ?k, unfolded statusesAt_four]
  have ok: "\<forall>line \<in> set [?d, ?a, ?b, ?c]. status line \<in> {''operational'', ''warning'', ''down''}"
    by simp
  have w: "worstStatus [''down'', ''operational'', ''warning'', ''operational''] = ''down''"
    by (simp add: worstStatus_def)
  have first: "map_option jp_status (map_of (findJunctionPoints [?d, ?a, ?b, ?c]) ?k) = Some ''down''"
    using four [OF ok, THEN conjunct1] by (simp add: w)
  have perm: "map_option jp_status (map_of (findJunctionPoints fs') ?k) = Some ''down''"
    if "mset fs' = mset [?d, ?a, ?b, ?c]" for fs'
    using four [OF ok, THEN conjunct2] that by (simp add: w)
  have middle: "map_option jp_status (map_of (findJunctionPoints [?a, ?b, ?d, ?c]) ?k) = Some ''down''"
    by (rule perm) (simp add: ac_simps)
  have last: "map_option jp_status (map_of (findJunctionPoints [?a, ?b, ?c, ?d]) ?k) = Some ''down''"
    by (rule perm) (simp add: ac_simps)
  from three first middle last show ?thesis by simp
qed

text \<open>
  Claim C6, as the code has it, over exact real arithmetic. The group of a key consists of
  all coordinates of all cables whose key, rounded to six decimals, is that key: every
  point of a cable's path counts, not only its first and last. For every key, the arcs at
  that key are: exactly one, of intensity \<open>min (0.2 + 0.1 * count) 0.8\<close> and of the
  colour of the aggregate status, when the group's connection count is greater than 1 and
  its aggregate status is not down; none otherwise.
\<close>

theorem junction_glow_points:
  "map (\<lambda>a. (arc_intensity a, arc_color a))
     (filter (\<lambda>a. arcKey a = key)
       (getElectricalArcs (Some \<lparr> hierarchical_power_cables = Some \<lparr> features = Some fs \<rparr> \<rparr>)))
     = (if 1 < connectionCount key fs \<and> aggregateStatus (statusesAt key fs) \<noteq> ''down''
        then [(min (0.2 + 0.1 * real (connectionCount key fs)) 0.8,
               getStatusColor (aggregateStatus (statusesAt key fs)))]
        else [])"
proof (cases "visitsAt key fs")
  case Nil
  then show ?thesis by (simp add: arcs_at_key connectionCount_def)
next
  case (Cons v rest)
  obtain st c where v: "v = (st, c)" by (cases v)
  show ?thesis
    by (simp add: arcs_at_key Cons v connectionCount_def statusesAt_def arcOf_def algebra_simps)
qed

theorem junction_glow_points_witness:
  "map (\<lambda>a. (arc_intensity a, arc_color a))
     (filter (\<lambda>a. arcKey a = junctionKey (0, 0))
       (getElectricalArcs (Some \<lparr> hierarchical_power_cables = Some \<lparr> features = Some
         [\<lparr> status = ''operational'', coordinates = [(0, 0), (1, 0)] \<rparr>,
          \<lparr> status = ''warning'', coordinates = [(0, 0), (0, 1)] \<rparr>,
          \<lparr> status = ''operational'', coordinates = [(1, 1), (0, 0)] \<rparr>] \<rparr> \<rparr>)))
     = [(1 / 2, [255, 255, 0])]
   \<and> filter (\<lambda>a. arcKey a = junctionKey (0, 0))
       (getElectricalArcs (Some \<lparr> hierarchical_power_cables = Some \<lparr> features = Some
         [\<lparr> status = ''down'', coordinates = [(0, 0), (1, 1)] \<rparr>,
          \<lparr> status = ''operational'', coordinates = [(0, 0), (1, 0)] \<rparr>,
          \<lparr> status = ''warning'', coordinates = [(0, 0), (0, 1)] \<rparr>,
          \<lparr> status = ''operational'', coordinates = [(1, 1), (0, 0)] \<rparr>] \<rparr> \<rparr>))
     = []"
proof -
  let ?a = "\<lparr> status = ''operational'', coordinates = [(0, 0), (1, 0::real)] \<rparr>"
  let ?b = "\<lparr> status = ''warning'', coordinates = [(0, 0), (0, 1::real)] \<rparr>"
  let ?c = "\<lparr> status = ''operational'', coordinates = [(1, 1), (0, 0::real)] \<rparr>"
  let ?d = "\<lparr> status = ''down'', coordinates = [(0, 0), (1, 1::real)] \<rparr>"
  let ?k = "junctionKey (0, 0)"
  have a3: "aggregateStatus [''operational'', ''warning'', ''operational''] = ''warning''"
    by (simp add: foldStatus_def)
  have a4: "aggregateStatus [''down'', ''operational'', ''warning'', ''operational''] = ''down''"
    by (simp add: foldStatus_def)
  have g: "getStatusColor ''warning'' = [255, 255, 0]"
    by (simp add: getStatusColor_def)
  have c3: "connectionCount ?k [?a, ?b, ?c] = 3"
    by (simp add: connectionCount_statuses statusesAt_three)
  have three: "map (\<lambda>a. (arc_intensity a, arc_color a))
     (filter (\<lambda>a. arcKey a = ?k)
       (getElectricalArcs (Some \<lparr> hierarchical_power_cables = Some \<lparr> features = Some [?a, ?b, ?c] \<rparr> \<rparr>)))
     = [(1 / 2, [255, 255, 0])]"
    unfolding junction_glow_points statusesAt_three c3 a3 g by simp
  have four: "map (\<lambda>a. (arc_intensity a, arc_color a)) (filter (\<lambda>a. arcKey a = ?k)
       (getElectricalArcs (Some \<lparr> hierarchical_power_cables = Some \<lparr> features = Some [?d, ?a, ?b, ?c] \<rparr> \<rparr>)))
     = []"
    unfolding junction_glow_points statusesAt_four a4 by simp
  from three four show ?thesis by simp
qed

text \<open>
  Claim C6 as stated fails for cables with more than two points: the two cables below cross
  at \<open>(0, 0)\<close>, an inner point of both paths. No first or last point of a cable has
  the key of \<open>(0, 0)\<close>, and yet a glow point is emitted there.
\<close>

theorem junction_glow_points_counterexample:
  "junctionKey (1, 0) \<noteq> junctionKey (0, 0) \<and> junctionKey (0, 1) \<noteq> junctionKey (0, 0)
   \<and> junctionKey (1, 1) \<noteq> junctionKey (0, 0)
   \<and> filter (\<lambda>a. arcKey a = junctionKey (0, 0))
       (getElectricalArcs (Some \<lparr> hierarchical_power_cables = Some \<lparr> features = Some
         [\<lparr> status = ''operational'', coordinates = [(1, 0), (0, 0), (0, 1)] \<rparr>,
          \<lparr> status = ''operational'', coordinates = [(1, 1), (0, 0), (1, 0)] \<rparr>] \<rparr> \<rparr>))
     = [\<lparr> arc_position = [0, 0, 500], arc_intensity = 2 / 5, arc_color = [0, 255, 0] \<rparr>]"
proof -
  have at: "visitsAt (junctionKey (0, 0))
      [\<lparr> status = ''operational'', coordinates = [(1, 0), (0, 0), (0, 1)] \<rparr>,
       \<lparr> status = ''operational'', coordinates = [(1, 1), (0, 0), (1, 0)] \<rparr>]
      = [(''operational'', (0, 0)), (''operational'', (0, 0))]"
    by (simp add: visitsAt_def visits_def junctionKey_00 junctionKey_10 junctionKey_01
        junctionKey_11)
  have "filter (\<lambda>a. arcKey a = junctionKey (0, 0))
       (getElectricalArcs (Some \<lparr> hierarchical_power_cables = Some \<lparr> features = Some
         [\<lparr> status = ''operational'', coordinates = [(1, 0), (0, 0), (0, 1)] \<rparr>,
          \<lparr> status = ''operational'', coordinates = [(1, 1), (0, 0), (1, 0)] \<rparr>] \<rparr> \<rparr>))
     = [\<lparr> arc_position = [0, 0, 500], arc_intensity = 2 / 5, arc_color = [0, 255, 0] \<rparr>]"
    unfolding arcs_at_key at
    by (simp add: arcOf_def foldStatus_def getStatusColor_def)
  then show ?thesis
    by (simp add: junctionKey_00 junctionKey_10 junctionKey_01 junctionKey_11)
qed

end
